theory Spec2Isabelle
  imports Complex_Main
begin

section \<open>JavaScript numbers\<close>

text \<open>
  Every number of \<^verbatim>\<open>server.js\<close> is an IEEE 754 binary64 value. A finite one is
  kept as the rational it denotes; the two zeros are identified, since the handler never
  divides and both print and bind as \<^verbatim>\<open>0\<close>. \<open>Infinity True\<close> is the negative
  infinity.
\<close>

datatype num = NaN | Infinity bool | Fin rat

text \<open>
  Scaling a positive rational into the significand range: afterwards
  \<open>2 ^ 52 \<le> a < 2 ^ 53\<close> with the exponent \<open>e\<close> of the unit in the last place,
  unless the exponent has reached the subnormal floor \<open>- 1074\<close> or has passed the
  largest one, \<open>971\<close>.
\<close>

function dexp_up :: "rat \<Rightarrow> int \<Rightarrow> rat \<times> int" where
  "dexp_up a e = (if 2 ^ 53 \<le> a \<and> e < 972 then dexp_up (a / 2) (e + 1) else (a, e))"
  by pat_completeness auto
termination
  by (relation "measure (\<lambda>(a, e). nat (972 - e))") auto

function dexp_down :: "rat \<Rightarrow> int \<Rightarrow> rat \<times> int" where
  "dexp_down a e = (if a < 2 ^ 52 \<and> - 1074 < e then dexp_down (a * 2) (e - 1) else (a, e))"
  by pat_completeness auto
termination
  by (relation "measure (\<lambda>(a, e). nat (e + 1074))") auto

declare dexp_up.simps [simp del] dexp_down.simps [simp del]

text \<open>Rounding to the nearest integer, a tie going to the even one.\<close>

definition rne :: "rat \<Rightarrow> int" where
  "rne x =
     (let f = \<lfloor>x\<rfloor>; d = x - of_int f
      in if d < 1 / 2 then f else if 1 / 2 < d then f + 1 else if even f then f else f + 1)"

text \<open>
  \<open>fl r\<close> is the binary64 value nearest to the rational \<open>r\<close> (round to nearest, ties
  to even; overflow gives an infinity): the value of every arithmetic result and of every
  decimal literal.
\<close>

definition fl :: "rat \<Rightarrow> num" where
  "fl r =
     (if r = 0 then Fin 0
      else
        let (a, e) = (if 2 ^ 53 \<le> \<bar>r\<bar> then dexp_up \<bar>r\<bar> 0 else dexp_down \<bar>r\<bar> 0);
            v = (if 0 \<le> e then of_int (rne a) * 2 ^ nat e else of_int (rne a) / 2 ^ nat (- e))
        in if 2 ^ 1024 \<le> v then Infinity (r < 0) else Fin (sgn r * v))"

fun js_neg :: "num \<Rightarrow> num" where
  "js_neg NaN = NaN"
| "js_neg (Infinity s) = Infinity (\<not> s)"
| "js_neg (Fin a) = Fin (- a)"

text \<open>The operator \<^verbatim>\<open>*\<close> on two numbers.\<close>

fun js_mul :: "num \<Rightarrow> num \<Rightarrow> num" where
  "js_mul NaN y = NaN"
| "js_mul x NaN = NaN"
| "js_mul (Infinity s) (Infinity t) = Infinity (s \<noteq> t)"
| "js_mul (Infinity s) (Fin b) = (if b = 0 then NaN else Infinity (s \<noteq> (b < 0)))"
| "js_mul (Fin a) (Infinity t) = (if a = 0 then NaN else Infinity ((a < 0) \<noteq> t))"
| "js_mul (Fin a) (Fin b) = fl (a * b)"

text \<open>The operator \<^verbatim>\<open>+\<close> on two numbers.\<close>

fun js_add :: "num \<Rightarrow> num \<Rightarrow> num" where
  "js_add NaN y = NaN"
| "js_add x NaN = NaN"
| "js_add (Infinity s) (Infinity t) = (if s = t then Infinity s else NaN)"
| "js_add (Infinity s) (Fin b) = Infinity s"
| "js_add (Fin a) (Infinity t) = Infinity t"
| "js_add (Fin a) (Fin b) = fl (a + b)"

text \<open>The operator \<^verbatim>\<open>-\<close> on two numbers.\<close>

definition js_sub :: "num \<Rightarrow> num \<Rightarrow> num" where
  "js_sub x y = js_add x (js_neg y)"

text \<open>
  What a numeric string spells: \<^verbatim>\<open>"NaN"\<close>, \<^verbatim>\<open>"Infinity"\<close> with its sign, or a
  decimal numeral, kept as the rational it writes down.
\<close>

datatype numeric_string = SNaN | SInfinity bool | SDecimal rat

text \<open>
  \<^verbatim>\<open>x.toFixed(2)\<close>: a value that is not finite prints by its name; a finite one of
  magnitude \<open>10 ^ 21\<close> or more prints as \<^verbatim>\<open>String(x)\<close>, which spells \<open>x\<close>
  back; any other prints the integer \<open>n\<close> with \<open>n / 100\<close> nearest to the magnitude,
  the larger \<open>n\<close> on a tie, under the sign of \<open>x\<close>.
\<close>

fun toFixed2 :: "num \<Rightarrow> numeric_string" where
  "toFixed2 NaN = SNaN"
| "toFixed2 (Infinity s) = SInfinity s"
| "toFixed2 (Fin x) =
     (if 10 ^ 21 \<le> \<bar>x\<bar> then SDecimal x
      else SDecimal (sgn x * of_int \<lfloor>\<bar>x\<bar> * 100 + 1 / 2\<rfloor> / 100))"

text \<open>\<^verbatim>\<open>parseFloat\<close> on such a string.\<close>

fun parseFloat :: "numeric_string \<Rightarrow> num" where
  "parseFloat SNaN = NaN"
| "parseFloat (SInfinity s) = Infinity s"
| "parseFloat (SDecimal r) = fl r"

section \<open>Rounding to two decimals, as the spec words it\<close>



text \<open>The number that \<open>x\<close> rounds to, computed with the rounding of the library.\<close>

definition nearest_hundredth :: "rat \<Rightarrow> rat" where
  "nearest_hundredth x =
     (if 0 \<le> x then of_int (round (x * 100)) / 100 else - (of_int (round (- x * 100)) / 100))"


section \<open>The order payload and its totals\<close>

record item =
  item_name :: "string option"
  price :: num
  quantity :: num

text \<open>
  The \<^verbatim>\<open>items\<close> field of the request body, by the kind of JSON value it holds;
  \<open>Undefined\<close> is the absent field. The elements of an array are taken to be item
  objects with numeric \<^verbatim>\<open>price\<close> and \<^verbatim>\<open>quantity\<close>.
\<close>

datatype items_value =
  Undefined | Null | Boolean bool | Number num | String string | Object | Array "item list"

text \<open>
  \<^verbatim>\<open>items.reduce((sum, item) => sum + item.price * item.quantity, 0)\<close>. Only an
  array has a callable \<^verbatim>\<open>reduce\<close>: on \<^verbatim>\<open>undefined\<close> and \<^verbatim>\<open>null\<close> the
  property read throws a TypeError, on any other value the call of a non-function does;
  \<open>None\<close> is that throw.
\<close>

fun items_reduce :: "items_value \<Rightarrow> num option" where
  "items_reduce (Array its) =
     Some (foldl (\<lambda>sum item. js_add sum (js_mul (price item) (quantity item))) (Fin 0) its)"
| "items_reduce _ = None"

record totals =
  subtotal :: num
  discount :: num
  gst :: num
  total_amount :: num

text \<open>Lines 50 to 52 of the handler, from the subtotal.\<close>

definition order_totals :: "num \<Rightarrow> totals" where
  "order_totals sub =
     (let disc = parseFloat (toFixed2 (js_mul sub (fl 0.10)));
          g = parseFloat (toFixed2 (js_mul (js_sub sub disc) (fl 0.18)));
          tot = parseFloat (toFixed2 (js_add (js_sub sub disc) g))
      in \<lparr>subtotal = sub, discount = disc, gst = g, total_amount = tot\<rparr>)"

section \<open>The bill number\<close>

text \<open>\<^verbatim>\<open>String(n)\<close> for an integer: its decimal digits, a minus sign before a negative one.\<close>

definition digit_char :: "nat \<Rightarrow> char" where
  "digit_char d = ''0123456789'' ! d"

function digits :: "nat \<Rightarrow> string" where
  "digits n = (if n < 10 then [digit_char n] else digits (n div 10) @ [digit_char (n mod 10)])"
  by pat_completeness auto
termination
  by (relation "measure id") auto

declare digits.simps [simp del]

definition js_String :: "int \<Rightarrow> string" where
  "js_String i = (if i < 0 then CHR ''-'' # digits (nat (- i)) else digits (nat i))"

text \<open>\<^verbatim>\<open>s.padStart(n, c)\<close> with a filler of one character.\<close>

definition padStart :: "nat \<Rightarrow> char \<Rightarrow> string \<Rightarrow> string" where
  "padStart n c s = (if n \<le> length s then s else replicate (n - length s) c @ s)"

definition bill_number :: "int \<Rightarrow> string" where
  "bill_number bill_no = ''BILL-'' @ padStart 6 (CHR ''0'') (js_String bill_no)"

text \<open>Reading a string of decimal digits back, for stating what a bill number spells.\<close>

definition digit_value :: "char \<Rightarrow> nat" where
  "digit_value c = of_char c - 48"

definition decimal_value :: "string \<Rightarrow> nat" where
  "decimal_value s = foldl (\<lambda>a c. 10 * a + digit_value c) 0 s"

section \<open>The relational store\<close>

text \<open>
  Timestamps count microseconds and dates count days, both from the same epoch; the
  store turns a date into a timestamp at its midnight and a timestamp into the date of
  its day.
\<close>

type_synonym timestamp = int
type_synonym date = int

definition usecs_per_day :: int where
  "usecs_per_day = 86400000000"

definition date_to_timestamp :: "date \<Rightarrow> timestamp" where
  "date_to_timestamp d = d * usecs_per_day"

definition DATE :: "timestamp \<Rightarrow> date" where
  "DATE t = t div usecs_per_day"

text \<open>
  Modelled from the spec: the schema of the tables \<^verbatim>\<open>orders\<close> and
  \<^verbatim>\<open>order_items\<close> is not part of the sources. The rows have the columns that the
  statements of \<^verbatim>\<open>server.js\<close> write or read, typed after the data model of the
  spec; a column that a statement may leave null is an option. The amount columns have the
  type \<open>'n\<close>: the handler binds JavaScript numbers to them, the dashboard queries read
  them as the decimals of the data model.
\<close>

record 'n order_row =
  o_id :: int
  o_customer_name :: "string option"
  o_customer_phone :: "string option"
  o_table_number :: "int option"
  o_subtotal :: 'n
  o_discount :: 'n
  o_gst :: 'n
  o_total_amount :: 'n
  o_order_type :: "string option"
  o_payment_status :: "string option"
  o_bill_number :: string
  o_created_at :: timestamp
  o_updated_at :: timestamp

record 'n order_item_row =
  oi_order_id :: int
  oi_item_name :: "string option"
  oi_price :: 'n
  oi_quantity :: 'n
  oi_total :: 'n
  oi_created_at :: timestamp
  oi_updated_at :: timestamp

text \<open>
  Modelled from the spec: the module \<^verbatim>\<open>./db\<close> is not part of the sources. The spec
  gives the store a query interface, a protocol of begin, commit and rollback, a checkout
  of a connection with its release, and a sequence generator, the transaction living on
  the checked-out connection. \<^verbatim>\<open>server.js\<close> uses the module as a connection pool:
  \<^verbatim>\<open>db.connect()\<close> checks a client out, which \<^verbatim>\<open>client.release()\<close> gives back,
  and \<^verbatim>\<open>db.query\<close> runs one statement on a pooled connection of its own, where the
  statement commits at once. A statement sent through the checked-out client runs on that
  client's connection, inside the transaction open there.
\<close>

datatype channel = Pool | Client

datatype pending = POrder "num order_row" | PItem "num order_item_row"

text \<open>
  The state of the checked-out client's connection: no transaction, an open one with the
  rows inserted in it so far, or one that a failed statement has aborted.
\<close>

datatype txn_state = NoTxn | Open "pending list" | Aborted

text \<open>
  The store: the committed rows, the two sequences, the clock behind \<^verbatim>\<open>NOW()\<close>,
  the client's transaction, how often a client was checked out and released, and the
  faults to inject: the store calls are counted, and a call whose number is in
  \<open>faults\<close> throws.
\<close>

record store =
  orders :: "num order_row list"
  order_items :: "num order_item_row list"
  bill_number_seq :: int
  orders_id_seq :: int
  clock :: timestamp
  client_txn :: txn_state
  checked_out :: nat
  released :: nat
  calls :: nat
  faults :: "nat list"

definition throws :: "store \<Rightarrow> bool" where
  "throws st = (calls st \<in> set (faults st))"

definition tick :: "store \<Rightarrow> store" where
  "tick st = st\<lparr>calls := calls st + 1\<rparr>"

fun add_row :: "pending \<Rightarrow> store \<Rightarrow> store" where
  "add_row (POrder r) st = st\<lparr>orders := orders st @ [r]\<rparr>"
| "add_row (PItem r) st = st\<lparr>order_items := order_items st @ [r]\<rparr>"

text \<open>
  An inserted row is committed at once, unless it comes through the client while a
  transaction is open there: then it waits for the \<^verbatim>\<open>COMMIT\<close>.
\<close>

definition write_row :: "channel \<Rightarrow> pending \<Rightarrow> store \<Rightarrow> store" where
  "write_row ch w st =
     (case ch of
        Pool \<Rightarrow> add_row w st
      | Client \<Rightarrow>
          (case client_txn st of Open ws \<Rightarrow> st\<lparr>client_txn := Open (ws @ [w])\<rparr> | _ \<Rightarrow> add_row w st))"

text \<open>
  One statement sent to the store; \<open>None\<close> is the rejected promise. A statement that
  fails changes no table and aborts the transaction it runs in, and an aborted
  transaction refuses every further statement.
\<close>

definition attempt :: "channel \<Rightarrow> (store \<Rightarrow> 'a \<times> store) \<Rightarrow> store \<Rightarrow> 'a option \<times> store" where
  "attempt ch run st =
     (if throws st then
        (None, if ch = Client \<and> client_txn st \<noteq> NoTxn then (tick st)\<lparr>client_txn := Aborted\<rparr>
               else tick st)
      else if ch = Client \<and> client_txn st = Aborted then (None, tick st)
      else (case run (tick st) of (r, st') \<Rightarrow> (Some r, st')))"

text \<open>\<^verbatim>\<open>SELECT nextval('bill_number_seq') AS bill_no\<close>; a sequence is never rolled back.\<close>

definition nextval_bill :: "channel \<Rightarrow> store \<Rightarrow> int option \<times> store" where
  "nextval_bill ch =
     attempt ch (\<lambda>st. let n = bill_number_seq st + 1 in (n, st\<lparr>bill_number_seq := n\<rparr>))"

text \<open>
  \<^verbatim>\<open>INSERT INTO orders (...) VALUES ($1, ..., $9, NOW(), NOW()) RETURNING id\<close>, with
  the nine bound values in the order of the statement. The id comes from the sequence of
  the table; the column \<^verbatim>\<open>customer_phone\<close> is not named in the statement and stays
  null.
\<close>

definition insert_order ::
  "channel \<Rightarrow> string option \<Rightarrow> int option \<Rightarrow> num \<Rightarrow> num \<Rightarrow> num \<Rightarrow> num \<Rightarrow>
     string option \<Rightarrow> string option \<Rightarrow> string \<Rightarrow> store \<Rightarrow> int option \<times> store" where
  "insert_order ch cn tn sub disc g tot ot ps bn =
     attempt ch (\<lambda>st.
       let i = orders_id_seq st + 1;
           row = \<lparr>o_id = i, o_customer_name = cn, o_customer_phone = None,
                  o_table_number = tn, o_subtotal = sub, o_discount = disc, o_gst = g,
                  o_total_amount = tot, o_order_type = ot, o_payment_status = ps,
                  o_bill_number = bn, o_created_at = clock st, o_updated_at = clock st\<rparr>
       in (i, write_row ch (POrder row) (st\<lparr>orders_id_seq := i\<rparr>)))"

text \<open>
  \<^verbatim>\<open>INSERT INTO order_items (...) VALUES ($1, ..., $5, NOW(), NOW())\<close>.
\<close>

definition insert_order_item ::
  "channel \<Rightarrow> int \<Rightarrow> string option \<Rightarrow> num \<Rightarrow> num \<Rightarrow> num \<Rightarrow> store \<Rightarrow> unit option \<times> store" where
  "insert_order_item ch oid nm p q t =
     attempt ch (\<lambda>st.
       ((), write_row ch
              (PItem \<lparr>oi_order_id = oid, oi_item_name = nm, oi_price = p, oi_quantity = q,
                      oi_total = t, oi_created_at = clock st, oi_updated_at = clock st\<rparr>) st))"

text \<open>\<^verbatim>\<open>BEGIN\<close>; inside an open transaction it only warns.\<close>

definition begin_txn :: "channel \<Rightarrow> store \<Rightarrow> unit option \<times> store" where
  "begin_txn ch =
     attempt ch (\<lambda>st.
       ((), case ch of
              Pool \<Rightarrow> st
            | Client \<Rightarrow> (case client_txn st of NoTxn \<Rightarrow> st\<lparr>client_txn := Open []\<rparr> | _ \<Rightarrow> st)))"

text \<open>
  \<^verbatim>\<open>COMMIT\<close> publishes the rows of the open transaction; on an aborted one it rolls
  back. A \<^verbatim>\<open>COMMIT\<close> that fails leaves nothing of the transaction.
\<close>

definition commit_txn :: "channel \<Rightarrow> store \<Rightarrow> unit option \<times> store" where
  "commit_txn ch st =
     (case ch of
        Pool \<Rightarrow> (if throws st then (None, tick st) else (Some (), tick st))
      | Client \<Rightarrow>
          (if throws st then (None, (tick st)\<lparr>client_txn := NoTxn\<rparr>)
           else
             (Some (),
              (case client_txn st of
                 Open ws \<Rightarrow> foldl (\<lambda>s w. add_row w s) (tick st) ws
               | _ \<Rightarrow> tick st)\<lparr>client_txn := NoTxn\<rparr>)))"

text \<open>\<^verbatim>\<open>ROLLBACK\<close> drops the rows of the client's transaction.\<close>

definition rollback_txn :: "channel \<Rightarrow> store \<Rightarrow> unit option \<times> store" where
  "rollback_txn ch st =
     (if throws st then (None, tick st)
      else (Some (), case ch of Pool \<Rightarrow> tick st | Client \<Rightarrow> (tick st)\<lparr>client_txn := NoTxn\<rparr>))"

text \<open>
  \<^verbatim>\<open>db.connect()\<close> hands out a client with no transaction open;
  \<^verbatim>\<open>client.release()\<close> gives it back and is no call to the store.
\<close>

definition connect :: "store \<Rightarrow> unit option \<times> store" where
  "connect st =
     (if throws st then (None, tick st)
      else (Some (), (tick st)\<lparr>checked_out := checked_out st + 1, client_txn := NoTxn\<rparr>))"

definition release :: "store \<Rightarrow> store" where
  "release st = st\<lparr>released := released st + 1\<rparr>"

section \<open>The handler of POST /api/orders\<close>

record payload =
  customer_name :: "string option"
  table_number :: "int option"
  order_type :: "string option"
  payment_status :: "string option"
  items :: items_value

text \<open>
  The two answers of the handler: status 200 with
  \<^verbatim>\<open>{success: true, orderId, billNumber, subtotal, discount, gst, totalAmount}\<close>, and
  status 500 with \<^verbatim>\<open>{success: false, message}\<close>.
\<close>

datatype response = Json200 int string totals | Json500 string

text \<open>
  The loop \<^verbatim>\<open>for (const item of items)\<close>: one insert through \<^verbatim>\<open>db.query\<close> for
  each item, stopping at the first one that throws.
\<close>

fun insert_items :: "int \<Rightarrow> item list \<Rightarrow> store \<Rightarrow> unit option \<times> store" where
  "insert_items orderId [] st = (Some (), st)"
| "insert_items orderId (it # its) st =
     (case insert_order_item Pool orderId (item_name it) (price it) (quantity it)
             (js_mul (price it) (quantity it)) st of
        (None, st') \<Rightarrow> (None, st')
      | (Some _, st') \<Rightarrow> insert_items orderId its st')"

text \<open>
  The \<^verbatim>\<open>try\<close> block, lines 46 to 106; \<open>None\<close> is an exception on its way to the
  \<^verbatim>\<open>catch\<close>. \<^verbatim>\<open>BEGIN\<close> and \<^verbatim>\<open>COMMIT\<close> go through \<^verbatim>\<open>client.query\<close>,
  the sequence read and every insert through \<^verbatim>\<open>db.query\<close>. The loop over the items
  is reached only after the reduction has returned, that is for an array.
\<close>

definition try_block :: "payload \<Rightarrow> store \<Rightarrow> response option \<times> store" where
  "try_block body st1 =
     (case begin_txn Client st1 of
        (None, st2) \<Rightarrow> (None, st2)
      | (Some _, st2) \<Rightarrow>
     (case items_reduce (items body) of
        None \<Rightarrow> (None, st2)
      | Some sub \<Rightarrow>
     (let t = order_totals sub in
      case nextval_bill Pool st2 of
        (None, st3) \<Rightarrow> (None, st3)
      | (Some bill_no, st3) \<Rightarrow>
     (let bn = bill_number bill_no in
      case insert_order Pool (customer_name body) (table_number body) (subtotal t)
             (discount t) (gst t) (total_amount t) (order_type body) (payment_status body)
             bn st3 of
        (None, st4) \<Rightarrow> (None, st4)
      | (Some orderId, st4) \<Rightarrow>
     (case insert_items orderId (case items body of Array its \<Rightarrow> its | _ \<Rightarrow> []) st4 of
        (None, st5) \<Rightarrow> (None, st5)
      | (Some _, st5) \<Rightarrow>
     (case commit_txn Client st5 of
        (None, st6) \<Rightarrow> (None, st6)
      | (Some _, st6) \<Rightarrow> (Some (Json200 orderId bn t), st6)))))))"

text \<open>
  The \<^verbatim>\<open>catch\<close> block: \<^verbatim>\<open>ROLLBACK\<close> through the client, then the answer 500. When
  the \<^verbatim>\<open>ROLLBACK\<close> throws as well, the handler sends no answer.
\<close>

definition catch_block :: "store \<Rightarrow> response option \<times> store" where
  "catch_block st =
     (case rollback_txn Client st of
        (None, st') \<Rightarrow> (None, st')
      | (Some _, st') \<Rightarrow> (Some (Json500 ''Error saving order''), st'))"

text \<open>
  The handler. \<^verbatim>\<open>db.connect()\<close> is awaited before the \<^verbatim>\<open>try\<close>: when it throws,
  there is no client, no answer and nothing to release. Otherwise the \<^verbatim>\<open>finally\<close>
  block releases the client after the \<^verbatim>\<open>try\<close> or the \<^verbatim>\<open>catch\<close>.
\<close>

definition createOrder :: "payload \<Rightarrow> store \<Rightarrow> response option \<times> store" where
  "createOrder body st0 =
     (case connect st0 of
        (None, st1) \<Rightarrow> (None, st1)
      | (Some _, st1) \<Rightarrow>
          (case (case try_block body st1 of
                   (Some r, st2) \<Rightarrow> (Some r, st2)
                 | (None, st2) \<Rightarrow> catch_block st2) of
             (r, st3) \<Rightarrow> (r, release st3)))"

text \<open>The row that the loop inserts for one item, under the order id and the clock.\<close>

definition item_row :: "int \<Rightarrow> timestamp \<Rightarrow> item \<Rightarrow> num order_item_row" where
  "item_row orderId now it =
     \<lparr>oi_order_id = orderId, oi_item_name = item_name it, oi_price = price it,
      oi_quantity = quantity it, oi_total = js_mul (price it) (quantity it),
      oi_created_at = now, oi_updated_at = now\<rparr>"

text \<open>The row that the handler inserts for the order, under the id, the bill number and the clock.\<close>

definition order_row_of :: "payload \<Rightarrow> int \<Rightarrow> string \<Rightarrow> totals \<Rightarrow> timestamp \<Rightarrow> num order_row" where
  "order_row_of body orderId bn t now =
     \<lparr>o_id = orderId, o_customer_name = customer_name body, o_customer_phone = None,
      o_table_number = table_number body, o_subtotal = subtotal t, o_discount = discount t,
      o_gst = gst t, o_total_amount = total_amount t, o_order_type = order_type body,
      o_payment_status = payment_status body, o_bill_number = bn, o_created_at = now,
      o_updated_at = now\<rparr>"

section \<open>The dashboard queries\<close>

text \<open>
  A value that may be \<^verbatim>\<open>undefined\<close> or \<^verbatim>\<open>null\<close>, and line 115:
  \<^verbatim>\<open>(param) => (param === undefined ? null : param)\<close>.
\<close>

datatype 'a js = JsUndefined | JsNull | JsValue 'a

definition parseParam :: "'a js \<Rightarrow> 'a js" where
  "parseParam param = (if param = JsUndefined then JsNull else param)"

text \<open>What the query-string parser puts under a key that is present.\<close>

datatype qs_value =
  QString string | QArray "qs_value list" | QObject "(string \<times> qs_value) list"

text \<open>
  Binding a value to a parameter that the statement casts to \<^verbatim>\<open>date\<close>:
  \<^verbatim>\<open>null\<close> and \<^verbatim>\<open>undefined\<close> bind the SQL null, here the inner \<open>None\<close>; any
  other value is read as a date by the store, whose reading \<open>date_in\<close> is a parameter
  of the model; a value it cannot read makes the statement fail, the outer \<open>None\<close>.
\<close>

fun bind_date :: "(qs_value \<Rightarrow> date option) \<Rightarrow> qs_value js \<Rightarrow> date option option" where
  "bind_date date_in JsUndefined = Some None"
| "bind_date date_in JsNull = Some None"
| "bind_date date_in (JsValue v) =
     (case date_in v of None \<Rightarrow> None | Some d \<Rightarrow> Some (Some d))"

text \<open>
  The condition
  \<^verbatim>\<open>($1::date IS NULL OR o.created_at >= $1) AND ($2::date IS NULL OR o.created_at <= $2)\<close>:
  both parameters are dates, and a date compared with a timestamp stands for its midnight.
\<close>

definition where_dates :: "date option \<Rightarrow> date option \<Rightarrow> timestamp \<Rightarrow> bool" where
  "where_dates p1 p2 created_at =
     ((case p1 of None \<Rightarrow> True | Some d \<Rightarrow> date_to_timestamp d \<le> created_at) \<and>
      (case p2 of None \<Rightarrow> True | Some d \<Rightarrow> created_at \<le> date_to_timestamp d))"

text \<open>
  \<^verbatim>\<open>SELECT oi.item_name, SUM(oi.total) AS total_sales FROM orders o JOIN order_items oi
  ON o.id = oi.order_id WHERE ... GROUP BY oi.item_name ORDER BY total_sales DESC\<close>;
  a result row is the pair of its two columns.
\<close>

definition sales_by_item_query ::
  "rat order_row list \<Rightarrow> rat order_item_row list \<Rightarrow> date option \<Rightarrow> date option \<Rightarrow>
     (string option \<times> rat) list" where
  "sales_by_item_query os ois p1 p2 =
     (let joined = [oi. ord \<leftarrow> os, oi \<leftarrow> ois, o_id ord = oi_order_id oi,
                       where_dates p1 p2 (o_created_at ord)];
          groups = remdups (map oi_item_name joined)
      in sort_key (\<lambda>r. - snd r)
           (map (\<lambda>k. (k, sum_list (map oi_total (filter (\<lambda>oi. oi_item_name oi = k) joined))))
              groups))"

text \<open>
  \<^verbatim>\<open>SELECT DATE(o.created_at) AS date, SUM(o.total_amount) AS total_sales FROM orders o
  WHERE ... GROUP BY date ORDER BY date\<close>.
\<close>

definition daily_sales_query ::
  "rat order_row list \<Rightarrow> date option \<Rightarrow> date option \<Rightarrow> (date \<times> rat) list" where
  "daily_sales_query os p1 p2 =
     (let selected = filter (\<lambda>ord. where_dates p1 p2 (o_created_at ord)) os;
          groups = remdups (map (\<lambda>ord. DATE (o_created_at ord)) selected)
      in sort_key fst
           (map (\<lambda>k. (k, sum_list (map o_total_amount
                                     (filter (\<lambda>ord. DATE (o_created_at ord) = k) selected))))
              groups))"

text \<open>
  \<^verbatim>\<open>SELECT o.payment_status, COUNT(*) AS count_orders, SUM(o.total_amount) AS total_amount
  FROM orders o WHERE ... GROUP BY o.payment_status\<close>; the statement fixes no order of
  the rows, the model lists each status where it first occurs.
\<close>

definition payment_status_distribution_query ::
  "rat order_row list \<Rightarrow> date option \<Rightarrow> date option \<Rightarrow> (string option \<times> nat \<times> rat) list" where
  "payment_status_distribution_query os p1 p2 =
     (let selected = filter (\<lambda>ord. where_dates p1 p2 (o_created_at ord)) os;
          groups = remdups (map o_payment_status selected)
      in map (\<lambda>k. (k, length (filter (\<lambda>ord. o_payment_status ord = k) selected),
                    sum_list (map o_total_amount (filter (\<lambda>ord. o_payment_status ord = k) selected))))
           groups)"

text \<open>
  \<^verbatim>\<open>SELECT customer_name, customer_phone, COUNT(*) AS pending_bills_count,
  SUM(total_amount) AS total_pending_amount FROM orders WHERE payment_status = 'Pending'
  GROUP BY customer_name, customer_phone ORDER BY total_pending_amount DESC LIMIT 5\<close>.
\<close>

definition pending_of ::
  "rat order_row list \<Rightarrow> string option \<times> string option \<Rightarrow> rat order_row list" where
  "pending_of os k =
     filter (\<lambda>ord. (o_customer_name ord, o_customer_phone ord) = k)
       (filter (\<lambda>ord. o_payment_status ord = Some ''Pending'') os)"

text \<open>The last column of a result row, \<^verbatim>\<open>total_pending_amount\<close>.\<close>

definition total_pending_amount :: "string option \<times> string option \<times> nat \<times> rat \<Rightarrow> rat" where
  "total_pending_amount r = (case r of (cn, cp, c, amount) \<Rightarrow> amount)"

definition top_pending_customers_query ::
  "rat order_row list \<Rightarrow> (string option \<times> string option \<times> nat \<times> rat) list" where
  "top_pending_customers_query os =
     (let selected = filter (\<lambda>ord. o_payment_status ord = Some ''Pending'') os;
          groups = remdups (map (\<lambda>ord. (o_customer_name ord, o_customer_phone ord)) selected)
      in take 5
           (sort_key (\<lambda>r. - total_pending_amount r)
              (map (\<lambda>k. (fst k, snd k, length (pending_of os k),
                          sum_list (map o_total_amount (pending_of os k))))
                 groups)))"

text \<open>
  The three handlers with a date range: the rows with status 200, or status 500 with
  \<^verbatim>\<open>{error: 'Internal server error'}\<close> when the statement fails.
\<close>

datatype 'r dashboard_response = Rows 'r | Error500

definition with_dates ::
  "(qs_value \<Rightarrow> date option) \<Rightarrow> qs_value js \<Rightarrow> qs_value js \<Rightarrow>
     (date option \<Rightarrow> date option \<Rightarrow> 'r) \<Rightarrow> 'r dashboard_response" where
  "with_dates date_in startDate endDate query =
     (case bind_date date_in (parseParam startDate) of
        None \<Rightarrow> Error500
      | Some p1 \<Rightarrow>
          (case bind_date date_in (parseParam endDate) of
             None \<Rightarrow> Error500
           | Some p2 \<Rightarrow> Rows (query p1 p2)))"

definition get_sales_by_item ::
  "(qs_value \<Rightarrow> date option) \<Rightarrow> rat order_row list \<Rightarrow> rat order_item_row list \<Rightarrow>
     qs_value js \<Rightarrow> qs_value js \<Rightarrow> (string option \<times> rat) list dashboard_response" where
  "get_sales_by_item date_in os ois startDate endDate =
     with_dates date_in startDate endDate (sales_by_item_query os ois)"

definition get_daily_sales ::
  "(qs_value \<Rightarrow> date option) \<Rightarrow> rat order_row list \<Rightarrow>
     qs_value js \<Rightarrow> qs_value js \<Rightarrow> (date \<times> rat) list dashboard_response" where
  "get_daily_sales date_in os startDate endDate =
     with_dates date_in startDate endDate (daily_sales_query os)"

definition get_payment_status_distribution ::
  "(qs_value \<Rightarrow> date option) \<Rightarrow> rat order_row list \<Rightarrow>
     qs_value js \<Rightarrow> qs_value js \<Rightarrow> (string option \<times> nat \<times> rat) list dashboard_response" where
  "get_payment_status_distribution date_in os startDate endDate =
     with_dates date_in startDate endDate (payment_status_distribution_query os)"

section \<open>Sample inputs\<close>

text \<open>
  An empty store whose clock stands at noon of 15 January 2024 (day 19737), with the
  faults to inject, and a payload around a given \<^verbatim>\<open>items\<close> value.
\<close>

definition fresh_store :: "nat list \<Rightarrow> store" where
  "fresh_store fs =
     \<lparr>orders = [], order_items = [], bill_number_seq = 0, orders_id_seq = 0,
      clock = 1705320000000000, client_txn = NoTxn, checked_out = 0, released = 0,
      calls = 0, faults = fs\<rparr>"

definition sample_order :: "items_value \<Rightarrow> payload" where
  "sample_order its =
     \<lparr>customer_name = Some ''Asha'', table_number = Some 4, order_type = Some ''Dine-In'',
      payment_status = Some ''Pending'', items = its\<rparr>"

definition tea :: item where
  "tea = \<lparr>item_name = Some ''Tea'', price = Fin 50, quantity = Fin 2\<rparr>"

definition samosa :: item where
  "samosa = \<lparr>item_name = Some ''Samosa'', price = Fin 15, quantity = Fin 1\<rparr>"


text \<open>A stored order of a customer, with its status, total and time of creation.\<close>

definition stored_order ::
  "int \<Rightarrow> string \<Rightarrow> string \<Rightarrow> rat \<Rightarrow> timestamp \<Rightarrow> rat order_row" where
  "stored_order i cn ps tot t =
     \<lparr>o_id = i, o_customer_name = Some cn, o_customer_phone = None, o_table_number = None,
      o_subtotal = tot, o_discount = 0, o_gst = 0, o_total_amount = tot,
      o_order_type = Some ''Dine-In'', o_payment_status = Some ps,
      o_bill_number = bill_number i, o_created_at = t, o_updated_at = t\<rparr>"

definition stored_item :: "int \<Rightarrow> string \<Rightarrow> rat \<Rightarrow> timestamp \<Rightarrow> rat order_item_row" where
  "stored_item i nm tot t =
     \<lparr>oi_order_id = i, oi_item_name = Some nm, oi_price = tot, oi_quantity = 1,
      oi_total = tot, oi_created_at = t, oi_updated_at = t\<rparr>"

text \<open>A reading of dates that knows three dates written in ISO form and rejects the rest.\<close>

definition iso_dates :: "qs_value \<Rightarrow> date option" where
  "iso_dates v =
     (if v = QString ''2024-01-01'' then Some 19723
      else if v = QString ''2024-01-15'' then Some 19737
      else if v = QString ''2024-02-01'' then Some 19754
      else None)"

text \<open>Four stored orders: two pending ones of one customer, a pending and a paid one of two others.\<close>

definition four_orders :: "rat order_row list" where
  "four_orders =
     [stored_order 1 ''Asha'' ''Pending'' 50 1705320000000000,
      stored_order 2 ''Ravi'' ''Paid'' 70 1705320000000000,
      stored_order 3 ''Asha'' ''Pending'' 30 1705406400000000,
      stored_order 4 ''Meera'' ''Pending'' 100 1705406400000000]"

section \<open>Facts about numbers\<close>

lemma floor_rat_numeral_divide:
  "\<lfloor>(numeral a :: rat) / numeral b\<rfloor> = numeral a div numeral b"
  by (metis floor_divide_of_int_eq of_int_numeral)

lemma floor_rat_one_divide:
  "\<lfloor>(1 :: rat) / numeral b\<rfloor> = 1 div numeral b"
  by (metis floor_divide_of_int_eq of_int_numeral of_int_1)

lemmas fl_eval =
  fl_def rne_def Let_def dexp_up.simps dexp_down.simps
  floor_rat_numeral_divide floor_rat_one_divide

lemma fl_one_tenth: "fl (1 / 10) = Fin (3602879701896397 / 2 ^ 55)"
  by (simp add: fl_eval)

lemma fl_eighteen_hundredths: "fl (9 / 50) = Fin (3242591731706757 / 2 ^ 54)"
  by (simp add: fl_eval)

lemma fl_zero: "fl 0 = Fin 0"
  by (simp add: fl_def)

text \<open>
  Three checks of the number model against well-known values: the sum of 0.1 and 0.2 is
  the neighbour above 0.3, written \<^verbatim>\<open>0.30000000000000004\<close>; 1.005 lies below its
  decimal numeral, so it prints as \<^verbatim>\<open>1.00\<close>; the product of 1.1 and 3 is the
  neighbour above 3.3, written \<^verbatim>\<open>3.3000000000000003\<close>.
\<close>

lemma js_add_tenth_fifth:
  "js_add (fl 0.1) (fl 0.2) = fl 0.30000000000000004 \<and> js_add (fl 0.1) (fl 0.2) \<noteq> fl 0.3"
  by (simp add: fl_eval)

lemma toFixed2_1005: "toFixed2 (fl 1.005) = SDecimal 1"
  by (simp add: fl_eval)

lemma js_mul_11_3:
  "js_mul (fl 1.1) (Fin 3) = fl 3.3000000000000003 \<and> js_mul (fl 1.1) (Fin 3) \<noteq> fl 3.3"
  by (simp add: fl_eval)

lemma order_totals_zero:
  "order_totals (Fin 0) = \<lparr>subtotal = Fin 0, discount = Fin 0, gst = Fin 0, total_amount = Fin 0\<rparr>"
  by (simp add: order_totals_def Let_def fl_one_tenth fl_eighteen_hundredths fl_zero js_sub_def
      floor_rat_one_divide)

section \<open>The bill number is the padded sequence value\<close>

lemma digit_value_digit_char: "d < 10 \<Longrightarrow> digit_value (digit_char d) = d"
proof -
  assume "d < 10"
  then consider "d = 0" | "d = 1" | "d = 2" | "d = 3" | "d = 4" | "d = 5" | "d = 6"
    | "d = 7" | "d = 8" | "d = 9"
    by atomize_elim arith
  then show ?thesis
    by cases (simp_all add: digit_value_def digit_char_def)
qed

lemma decimal_value_snoc: "decimal_value (s @ [c]) = 10 * decimal_value s + digit_value c"
  by (simp add: decimal_value_def)

lemma decimal_value_digits: "decimal_value (digits n) = n"
proof (induction n rule: digits.induct)
  case (1 n)
  show ?case
  proof (cases "n < 10")
    case True
    then show ?thesis
      by (subst digits.simps) (simp add: decimal_value_def digit_value_digit_char)
  next
    case False
    with 1 show ?thesis
      by (subst digits.simps) (simp add: decimal_value_snoc digit_value_digit_char)
  qed
qed

lemma decimal_value_zeros: "decimal_value (replicate k (CHR ''0'') @ s) = decimal_value s"
proof -
  have "foldl (\<lambda>a c. 10 * a + digit_value c) 0 (replicate k (CHR ''0'')) = 0"
    by (induction k) (simp_all add: digit_value_def)
  then show ?thesis
    by (simp add: decimal_value_def)
qed

lemma bill_number_7: "bill_number 7 = ''BILL-000007''"
  by (simp add: bill_number_def padStart_def js_String_def digits.simps digit_char_def eval_nat_numeral)

lemma bill_number_1234567: "bill_number 1234567 = ''BILL-1234567''"
  by (simp add: bill_number_def padStart_def js_String_def digits.simps digit_char_def)

text \<open>
  Claim C3: the bill number is \<^verbatim>\<open>BILL-\<close> followed by the decimal digits of the
  sequence value, filled with zeros on the left up to six characters and never cut: the
  part after the prefix has at least six characters and, for a sequence value that is not
  negative, reads back as that value; 7 gives \<^verbatim>\<open>BILL-000007\<close> and 1234567 gives
  \<^verbatim>\<open>BILL-1234567\<close>.
\<close>

theorem bill_number_format:
  "bill_number n = ''BILL-'' @ replicate (6 - length (js_String n)) (CHR ''0'') @ js_String n
   \<and> 6 \<le> length (drop 5 (bill_number n))
   \<and> (0 \<le> n \<longrightarrow> decimal_value (drop 5 (bill_number n)) = nat n)
   \<and> bill_number 7 = ''BILL-000007''
   \<and> bill_number 1234567 = ''BILL-1234567''"
proof -
  have a: "bill_number n = ''BILL-'' @ replicate (6 - length (js_String n)) (CHR ''0'') @ js_String n"
    by (simp add: bill_number_def padStart_def)
  have b: "6 \<le> length (drop 5 (bill_number n))"
    by (simp add: a)
  have c: "decimal_value (drop 5 (bill_number n)) = nat n" if "0 \<le> n"
    using that by (simp add: a decimal_value_zeros js_String_def decimal_value_digits)
  show ?thesis
    using a b c bill_number_7 bill_number_1234567 by blast
qed

theorem bill_number_format_witness:
  "(0::int) \<le> 7 \<and> decimal_value (drop 5 (bill_number 7)) = nat 7"
proof -
  have "(0::int) \<le> 7 \<longrightarrow> decimal_value (drop 5 (bill_number 7)) = nat 7"
    using bill_number_format [of 7] by blast
  then show ?thesis
    by simp
qed

section \<open>A run of the handler without faults\<close>

lemma insert_items_no_faults:
  "faults st = [] \<Longrightarrow>
   insert_items oid its st =
     (Some (), st\<lparr>order_items := order_items st @ map (item_row oid (clock st)) its,
                  calls := calls st + length its\<rparr>)"
proof (induction its arbitrary: st)
  case Nil
  then show ?case by simp
next
  case (Cons it its)
  let ?st1 = "(tick st)\<lparr>order_items := order_items st @ [item_row oid (clock st) it]\<rparr>"
  have step: "insert_order_item Pool oid (item_name it) (price it) (quantity it)
                (js_mul (price it) (quantity it)) st = (Some (), ?st1)"
    using Cons.prems
    by (simp add: insert_order_item_def attempt_def throws_def tick_def write_row_def item_row_def)
  have "faults ?st1 = []"
    using Cons.prems by (simp add: tick_def)
  from Cons.IH [OF this] show ?case
    by (simp add: step tick_def)
qed

lemma createOrder_no_faults:
  assumes "faults st = []"
  shows "createOrder (body\<lparr>items := Array its\<rparr>) st =
     (let sub = foldl (\<lambda>sum item. js_add sum (js_mul (price item) (quantity item))) (Fin 0) its;
          t = order_totals sub;
          i = orders_id_seq st + 1;
          bn = bill_number (bill_number_seq st + 1)
      in (Some (Json200 i bn t),
          st\<lparr>orders := orders st @ [order_row_of body i bn t (clock st)],
             order_items := order_items st @ map (item_row i (clock st)) its,
             bill_number_seq := bill_number_seq st + 1,
             orders_id_seq := i,
             client_txn := NoTxn,
             checked_out := checked_out st + 1,
             released := released st + 1,
             calls := calls st + 5 + length its\<rparr>))"
  using assms
  by (simp add: createOrder_def try_block_def connect_def begin_txn_def attempt_def throws_def
      tick_def nextval_bill_def insert_order_def write_row_def commit_txn_def release_def
      Let_def insert_items_no_faults order_row_of_def)

section \<open>The rounding of the code is the rounding of the spec\<close>





section \<open>Large binary64 values are whole numbers\<close>





section \<open>The two roundings agree\<close>








lemma fl_9_95: "fl 9.95 = Fin (5601352036542054 / 2 ^ 49)"
  by (simp add: fl_eval)

text \<open>
  The numeral 9.95 is held as the binary64 value just below it, whose exact tenth lies
  below 0.995 and rounds to 0.99 as well: the discount 0.99 comes with the held value, not
  with the product in binary64.
\<close>

lemma held_9_95_tenth:
  "(5601352036542054 / 2 ^ 49 :: rat) < 9.95
   \<and> nearest_hundredth (5601352036542054 / 2 ^ 49 * (1 / 10)) = 0.99"
  by (simp add: nearest_hundredth_def round_def floor_rat_numeral_divide)


section \<open>The totals of an order\<close>









section \<open>An order without items\<close>

text \<open>
  Claim C5: a payload whose items are the empty sequence is not rejected. A run that
  meets no fault answers with success and the amounts 0, 0, 0 and 0, adds exactly one row
  to the orders, carrying these amounts, and adds no row to the order items.
\<close>

theorem createOrder_empty_items:
  assumes "faults st = []"
  shows
    "let zero = \<lparr>subtotal = Fin 0, discount = Fin 0, gst = Fin 0, total_amount = Fin 0\<rparr>;
         i = orders_id_seq st + 1;
         bn = bill_number (bill_number_seq st + 1);
         body = b\<lparr>items := Array []\<rparr>
     in fst (createOrder body st) = Some (Json200 i bn zero)
        \<and> orders (snd (createOrder body st)) = orders st @ [order_row_of body i bn zero (clock st)]
        \<and> order_items (snd (createOrder body st)) = order_items st"
  using assms
  by (simp add: Let_def createOrder_no_faults order_totals_zero order_row_of_def)

theorem createOrder_empty_items_witness:
  "faults (fresh_store []) = []
   \<and> fst (createOrder (sample_order (Array [])) (fresh_store [])) =
       Some (Json200 1 ''BILL-000001''
         \<lparr>subtotal = Fin 0, discount = Fin 0, gst = Fin 0, total_amount = Fin 0\<rparr>)
   \<and> length (orders (snd (createOrder (sample_order (Array [])) (fresh_store [])))) = 1
   \<and> order_items (snd (createOrder (sample_order (Array [])) (fresh_store []))) = []"
proof -
  have f: "faults (fresh_store []) = []"
    by (simp add: fresh_store_def)
  have b: "bill_number 1 = ''BILL-000001''"
    by (simp add: bill_number_def padStart_def js_String_def digits.simps digit_char_def
        eval_nat_numeral)
  have body: "(sample_order (Array []))\<lparr>items := Array []\<rparr> = sample_order (Array [])"
    by (simp add: sample_order_def)
  show ?thesis
    using createOrder_empty_items [OF f, of "sample_order (Array [])"]
    unfolding Let_def body
    by (simp add: fresh_store_def b)
qed

section \<open>The inserts are not part of the transaction\<close>

text \<open>
  Claim C1 asks that the order row and its item rows are stored together or not at all.
  The handler opens, commits and rolls back the transaction on the checked-out client, but
  sends every insert through \<^verbatim>\<open>db.query\<close>. With two items and a fault at the insert of
  the second one (the sixth call to the store), the handler rolls back and answers 500,
  while the order row and the row of the first item stay in the tables.
\<close>

theorem createOrder_not_atomic:
  "fst (createOrder (sample_order (Array [tea, samosa])) (fresh_store [5])) =
     Some (Json500 ''Error saving order'')
   \<and> map o_id (orders (snd (createOrder (sample_order (Array [tea, samosa])) (fresh_store [5]))))
       = [1]
   \<and> map oi_item_name
         (order_items (snd (createOrder (sample_order (Array [tea, samosa])) (fresh_store [5]))))
       = [Some ''Tea'']
   \<and> client_txn (snd (createOrder (sample_order (Array [tea, samosa])) (fresh_store [5])))
       = NoTxn"
  by (simp add: createOrder_def try_block_def catch_block_def connect_def begin_txn_def
      attempt_def throws_def tick_def nextval_bill_def insert_order_def insert_order_item_def
      write_row_def commit_txn_def rollback_txn_def release_def Let_def sample_order_def
      fresh_store_def tea_def samosa_def)

text \<open>
  The same inserts sent through the client are dropped by the \<^verbatim>\<open>ROLLBACK\<close>: the store
  does keep a transaction together, the handler does not use it.
\<close>

lemma client_inserts_are_rolled_back:
  assumes "faults st = []" and "client_txn st = NoTxn"
  shows "\<exists>st1 st2 st3 i.
           begin_txn Client st = (Some (), st1)
         \<and> insert_order Client cn tn sub disc g tot ot ps bn st1 = (Some i, st2)
         \<and> insert_order_item Client i nm p q t st2 = (Some (), st3)
         \<and> orders (snd (rollback_txn Client st3)) = orders st
         \<and> order_items (snd (rollback_txn Client st3)) = order_items st"
  using assms
  by (simp add: begin_txn_def attempt_def throws_def tick_def insert_order_def
      insert_order_item_def write_row_def rollback_txn_def Let_def)

section \<open>The client is released once\<close>

lemma attempt_conn:
  assumes "attempt ch run st = (r, st')"
    and "\<And>s x s'. run s = (x, s') \<Longrightarrow>
           released s' = released s \<and> checked_out s' = checked_out s"
  shows "released st' = released st \<and> checked_out st' = checked_out st"
proof (cases "throws st \<or> (ch = Client \<and> client_txn st = Aborted)")
  case True
  with assms(1) show ?thesis
    by (auto simp: attempt_def tick_def split: if_splits)
next
  case False
  with assms(1) obtain x where "run (tick st) = (x, st')"
    by (auto simp: attempt_def split: prod.splits)
  from assms(2) [OF this] show ?thesis
    by (simp add: tick_def)
qed

lemma write_row_conn:
  "released (write_row ch w st) = released st \<and> checked_out (write_row ch w st) = checked_out st"
  by (cases w; cases ch; cases "client_txn st") (simp_all add: write_row_def)

lemma begin_txn_conn:
  "begin_txn ch st = (r, st') \<Longrightarrow> released st' = released st \<and> checked_out st' = checked_out st"
  unfolding begin_txn_def
  by (erule attempt_conn) (auto split: channel.splits txn_state.splits)

lemma nextval_bill_conn:
  "nextval_bill ch st = (r, st') \<Longrightarrow>
   released st' = released st \<and> checked_out st' = checked_out st"
  unfolding nextval_bill_def
  by (erule attempt_conn) (auto simp: Let_def)

lemma insert_order_conn:
  "insert_order ch cn tn sub disc g tot ot ps bn st = (r, st') \<Longrightarrow>
   released st' = released st \<and> checked_out st' = checked_out st"
  unfolding insert_order_def
  by (erule attempt_conn) (auto simp: Let_def write_row_conn)

lemma insert_order_item_conn:
  "insert_order_item ch oid nm p q t st = (r, st') \<Longrightarrow>
   released st' = released st \<and> checked_out st' = checked_out st"
  unfolding insert_order_item_def
  by (erule attempt_conn) (auto simp: write_row_conn)

lemma insert_items_conn:
  "insert_items oid its st = (r, st') \<Longrightarrow>
   released st' = released st \<and> checked_out st' = checked_out st"
proof (induction its arbitrary: st)
  case Nil
  then show ?case by simp
next
  case (Cons it its)
  obtain r1 st1 where one:
    "insert_order_item Pool oid (item_name it) (price it) (quantity it)
       (js_mul (price it) (quantity it)) st = (r1, st1)"
    by (cases "insert_order_item Pool oid (item_name it) (price it) (quantity it)
       (js_mul (price it) (quantity it)) st")
  note c1 = insert_order_item_conn [OF one]
  show ?case
  proof (cases r1)
    case None
    with Cons.prems one c1 show ?thesis by simp
  next
    case (Some u)
    with Cons.prems one have "insert_items oid its st1 = (r, st')" by simp
    from Cons.IH [OF this] c1 show ?thesis by simp
  qed
qed

lemma add_rows_conn:
  "released (foldl (\<lambda>s w. add_row w s) st ws) = released st
   \<and> checked_out (foldl (\<lambda>s w. add_row w s) st ws) = checked_out st"
proof (induction ws arbitrary: st)
  case Nil
  then show ?case by simp
next
  case (Cons w ws)
  then show ?case by (cases w) simp_all
qed

lemma commit_txn_conn:
  "commit_txn ch st = (r, st') \<Longrightarrow>
   released st' = released st \<and> checked_out st' = checked_out st"
  by (auto simp: commit_txn_def tick_def add_rows_conn
      split: channel.splits if_splits txn_state.splits)

lemma rollback_txn_conn:
  "rollback_txn ch st = (r, st') \<Longrightarrow>
   released st' = released st \<and> checked_out st' = checked_out st"
  by (auto simp: rollback_txn_def tick_def split: channel.splits if_splits)

lemma try_block_conn:
  assumes "try_block body st = (r, st')"
  shows "released st' = released st \<and> checked_out st' = checked_out st"
  using assms
  unfolding try_block_def Let_def
  by (auto split: prod.splits option.splits
      dest!: begin_txn_conn nextval_bill_conn insert_order_conn insert_items_conn
        commit_txn_conn)

lemma catch_block_conn:
  "catch_block st = (r, st') \<Longrightarrow>
   released st' = released st \<and> checked_out st' = checked_out st"
  by (auto simp: catch_block_def split: prod.splits option.splits dest!: rollback_txn_conn)

text \<open>
  Claim C8: once \<^verbatim>\<open>db.connect()\<close> has handed out the client, every path of the handler
  releases it exactly once, whatever the payload and whichever later calls to the store
  throw: after the success, after the rollback, and when the rollback throws as well.
\<close>

theorem createOrder_releases_once:
  assumes "\<not> throws st"
  shows "checked_out (snd (createOrder body st)) = checked_out st + 1
       \<and> released (snd (createOrder body st)) = released st + 1"
proof -
  let ?st1 = "(tick st)\<lparr>checked_out := checked_out st + 1, client_txn := NoTxn\<rparr>"
  have c: "connect st = (Some (), ?st1)"
    using assms by (simp add: connect_def)
  obtain r2 st2 where t: "try_block body ?st1 = (r2, st2)"
    by (cases "try_block body ?st1")
  note t2 = try_block_conn [OF t]
  show ?thesis
  proof (cases r2)
    case (Some resp)
    with c t t2 show ?thesis
      by (simp add: createOrder_def release_def tick_def)
  next
    case None
    obtain r3 st3 where k: "catch_block st2 = (r3, st3)"
      by (cases "catch_block st2")
    note k3 = catch_block_conn [OF k]
    from None c t t2 k k3 show ?thesis
      by (simp add: createOrder_def release_def tick_def)
  qed
qed

lemma createOrder_without_client:
  "throws st \<Longrightarrow>
   createOrder body st = (None, tick st)"
  by (simp add: createOrder_def connect_def)

theorem createOrder_releases_once_witness:
  "\<not> throws (fresh_store [5])
   \<and> released (snd (createOrder (sample_order (Array [tea, samosa])) (fresh_store [5]))) = 1
   \<and> \<not> throws (fresh_store [1, 2])
   \<and> released (snd (createOrder (sample_order Undefined) (fresh_store [1, 2]))) = 1"
proof -
  have a: "\<not> throws (fresh_store [5])" and b: "\<not> throws (fresh_store [1, 2])"
    by (simp_all add: throws_def fresh_store_def)
  show ?thesis
    using createOrder_releases_once [OF a, of "sample_order (Array [tea, samosa])"]
      createOrder_releases_once [OF b, of "sample_order Undefined"] a b
    by (simp add: fresh_store_def)
qed

section \<open>A payload whose items are not a sequence\<close>

lemma items_reduce_not_array: "\<forall>its. v \<noteq> Array its \<Longrightarrow> items_reduce v = None"
  by (cases v) simp_all

text \<open>
  Claim C9: when the \<^verbatim>\<open>items\<close> field is absent or holds anything but a sequence,
  the reduction throws before any insert: with the client checked out, the run leaves both
  tables as they were and releases the client; its only possible answer is the general
  failure, status 500 with \<^verbatim>\<open>{success: false, message: 'Error saving order'}\<close>, which it
  gives, with the transaction closed, whenever the \<^verbatim>\<open>ROLLBACK\<close> (the third call to the
  store) does not throw itself.
\<close>

theorem createOrder_items_not_a_sequence:
  assumes "\<forall>its. items body \<noteq> Array its" and "\<not> throws st"
  shows "items_reduce (items body) = None
       \<and> orders (snd (createOrder body st)) = orders st
       \<and> order_items (snd (createOrder body st)) = order_items st
       \<and> released (snd (createOrder body st)) = released st + 1
       \<and> (fst (createOrder body st) = None
            \<or> fst (createOrder body st) = Some (Json500 ''Error saving order''))
       \<and> (calls st + 2 \<notin> set (faults st) \<longrightarrow>
            fst (createOrder body st) = Some (Json500 ''Error saving order'')
            \<and> client_txn (snd (createOrder body st)) = NoTxn)"
proof -
  have r: "items_reduce (items body) = None"
    using assms(1) by (rule items_reduce_not_array)
  show ?thesis
    using assms(2) r
    by (simp add: createOrder_def try_block_def catch_block_def connect_def begin_txn_def
        attempt_def rollback_txn_def release_def throws_def tick_def)
qed

theorem createOrder_items_not_a_sequence_witness:
  "items (sample_order Undefined) = Undefined
   \<and> items (sample_order (String ''tea'')) = String ''tea''
   \<and> \<not> throws (fresh_store [])
   \<and> calls (fresh_store []) + 2 \<notin> set (faults (fresh_store []))
   \<and> begin_txn Client (snd (connect (fresh_store [])))
       = (Some (), (snd (connect (fresh_store [])))\<lparr>calls := 2, client_txn := Open []\<rparr>)
   \<and> items_reduce (items (sample_order Undefined)) = None
   \<and> fst (createOrder (sample_order Undefined) (fresh_store [])) =
       Some (Json500 ''Error saving order'')
   \<and> orders (snd (createOrder (sample_order Undefined) (fresh_store []))) = []
   \<and> order_items (snd (createOrder (sample_order Undefined) (fresh_store []))) = []
   \<and> released (snd (createOrder (sample_order Undefined) (fresh_store []))) = 1
   \<and> client_txn (snd (createOrder (sample_order Undefined) (fresh_store []))) = NoTxn
   \<and> items_reduce (items (sample_order (String ''tea''))) = None
   \<and> fst (createOrder (sample_order (String ''tea'')) (fresh_store [])) =
       Some (Json500 ''Error saving order'')
   \<and> orders (snd (createOrder (sample_order (String ''tea'')) (fresh_store []))) = []
   \<and> released (snd (createOrder (sample_order (String ''tea'')) (fresh_store []))) = 1"
proof -
  have a1: "\<forall>its. items (sample_order Undefined) \<noteq> Array its"
    and a2: "\<forall>its. items (sample_order (String ''tea'')) \<noteq> Array its"
    by (simp_all add: sample_order_def)
  have b: "\<not> throws (fresh_store [])"
    by (simp add: throws_def fresh_store_def)
  have c: "calls (fresh_store []) + 2 \<notin> set (faults (fresh_store []))"
    by (simp add: fresh_store_def)
  have d: "orders (fresh_store []) = []" "order_items (fresh_store []) = []"
    "released (fresh_store []) = 0"
    by (simp_all add: fresh_store_def)
  have e: "items (sample_order Undefined) = Undefined"
    "items (sample_order (String ''tea'')) = String ''tea''"
    by (simp_all add: sample_order_def)
  have g: "begin_txn Client (snd (connect (fresh_store [])))
       = (Some (), (snd (connect (fresh_store [])))\<lparr>calls := 2, client_txn := Open []\<rparr>)"
    by (simp add: begin_txn_def attempt_def connect_def throws_def tick_def fresh_store_def)
  show ?thesis
    using createOrder_items_not_a_sequence [OF a1 b] createOrder_items_not_a_sequence [OF a2 b]
      b c d e g
    by simp
qed

section \<open>The date range of the dashboard queries\<close>

lemma date_to_timestamp_le: "d \<le> DATE t \<Longrightarrow> date_to_timestamp d \<le> t"
  unfolding DATE_def date_to_timestamp_def usecs_per_day_def by arith

lemma le_date_to_timestamp: "DATE t < d \<Longrightarrow> t \<le> date_to_timestamp d"
  unfolding DATE_def date_to_timestamp_def usecs_per_day_def by arith

lemma DATE_date_to_timestamp: "DATE (date_to_timestamp d) = d"
  by (simp add: DATE_def date_to_timestamp_def usecs_per_day_def)

text \<open>The lower bound does take in its whole day.\<close>

lemma start_day_included: "DATE t = d \<Longrightarrow> where_dates (Some d) None t"
  by (simp add: where_dates_def date_to_timestamp_le)

text \<open>The upper bound keeps of its own day the midnight only.\<close>

lemma end_day_only_midnight:
  "DATE t = d \<Longrightarrow> where_dates None (Some d) t \<longleftrightarrow> t = date_to_timestamp d"
  unfolding where_dates_def DATE_def date_to_timestamp_def usecs_per_day_def
  by (simp split: option.splits) arith

lemma where_dates_covering:
  "d1 \<le> DATE t \<Longrightarrow> DATE t < d2 \<Longrightarrow> where_dates (Some d1) (Some d2) t"
  by (simp add: where_dates_def date_to_timestamp_le le_date_to_timestamp)

lemma where_dates_unbounded: "where_dates None None t"
  by (simp add: where_dates_def)

text \<open>
  Claim C4 asks that an end date takes in every order of its calendar day. An order
  created at noon of day 19737 is left out of all three aggregates when that day is the
  end date, although it is there without the bound and with the day as start date.
\<close>

theorem end_date_excludes_its_day:
  "DATE 1705320000000000 = 19737
   \<and> daily_sales_query [stored_order 1 ''Asha'' ''Paid'' 106.20 1705320000000000]
        None (Some 19737) = []
   \<and> payment_status_distribution_query
        [stored_order 1 ''Asha'' ''Paid'' 106.20 1705320000000000] None (Some 19737) = []
   \<and> sales_by_item_query [stored_order 1 ''Asha'' ''Paid'' 106.20 1705320000000000]
        [stored_item 1 ''Tea'' 100 1705320000000000] None (Some 19737) = []
   \<and> daily_sales_query [stored_order 1 ''Asha'' ''Paid'' 106.20 1705320000000000]
        (Some 19737) None = [(19737, 106.20)]
   \<and> daily_sales_query [stored_order 1 ''Asha'' ''Paid'' 106.20 1705320000000000]
        None None = [(19737, 106.20)]"
  by (simp add: daily_sales_query_def payment_status_distribution_query_def
      sales_by_item_query_def where_dates_def date_to_timestamp_def DATE_def
      usecs_per_day_def stored_order_def stored_item_def)

section \<open>No bounds and bounds around every order\<close>

lemma sales_by_item_query_cong:
  assumes "\<forall>ord \<in> set os. where_dates p1 p2 (o_created_at ord) = where_dates q1 q2 (o_created_at ord)"
  shows "sales_by_item_query os ois p1 p2 = sales_by_item_query os ois q1 q2"
proof -
  have "[oi. ord \<leftarrow> os, oi \<leftarrow> ois, o_id ord = oi_order_id oi, where_dates p1 p2 (o_created_at ord)]
      = [oi. ord \<leftarrow> os, oi \<leftarrow> ois, o_id ord = oi_order_id oi, where_dates q1 q2 (o_created_at ord)]"
    using assms by (induction os) (simp_all cong: if_cong)
  then show ?thesis
    by (simp add: sales_by_item_query_def)
qed

lemma selected_cong:
  assumes "\<forall>ord \<in> set os. where_dates p1 p2 (o_created_at ord) = where_dates q1 q2 (o_created_at ord)"
  shows "filter (\<lambda>ord. where_dates p1 p2 (o_created_at ord)) os
       = filter (\<lambda>ord. where_dates q1 q2 (o_created_at ord)) os"
  using assms by (induction os) simp_all

lemma daily_sales_query_cong:
  assumes "\<forall>ord \<in> set os. where_dates p1 p2 (o_created_at ord) = where_dates q1 q2 (o_created_at ord)"
  shows "daily_sales_query os p1 p2 = daily_sales_query os q1 q2"
  by (simp add: daily_sales_query_def selected_cong [OF assms])

lemma payment_status_distribution_query_cong:
  assumes "\<forall>ord \<in> set os. where_dates p1 p2 (o_created_at ord) = where_dates q1 q2 (o_created_at ord)"
  shows "payment_status_distribution_query os p1 p2 = payment_status_distribution_query os q1 q2"
  by (simp add: payment_status_distribution_query_def selected_cong [OF assms])

text \<open>
  Claim C6: on every state of the tables, each of the three handlers answers a request
  without \<^verbatim>\<open>startDate\<close> and \<^verbatim>\<open>endDate\<close> with the rows of the query without bounds,
  and these are the rows it answers when both dates are given and lie around every order:
  the start date not after the day of any order, the end date after the day of every order.
\<close>

theorem absent_dates_equal_covering_dates:
  assumes "date_in v1 = Some d1" and "date_in v2 = Some d2"
    and "\<forall>ord \<in> set os. d1 \<le> DATE (o_created_at ord) \<and> DATE (o_created_at ord) < d2"
  shows "get_sales_by_item date_in os ois JsUndefined JsUndefined
           = Rows (sales_by_item_query os ois None None)
       \<and> get_sales_by_item date_in os ois (JsValue v1) (JsValue v2)
           = get_sales_by_item date_in os ois JsUndefined JsUndefined
       \<and> get_daily_sales date_in os JsUndefined JsUndefined
           = Rows (daily_sales_query os None None)
       \<and> get_daily_sales date_in os (JsValue v1) (JsValue v2)
           = get_daily_sales date_in os JsUndefined JsUndefined
       \<and> get_payment_status_distribution date_in os JsUndefined JsUndefined
           = Rows (payment_status_distribution_query os None None)
       \<and> get_payment_status_distribution date_in os (JsValue v1) (JsValue v2)
           = get_payment_status_distribution date_in os JsUndefined JsUndefined"
proof -
  have w: "\<forall>ord \<in> set os. where_dates (Some d1) (Some d2) (o_created_at ord)
             = where_dates None None (o_created_at ord)"
    using assms(3) by (simp add: where_dates_covering where_dates_unbounded)
  show ?thesis
    using assms(1,2)
    by (simp add: get_sales_by_item_def get_daily_sales_def get_payment_status_distribution_def
        with_dates_def parseParam_def sales_by_item_query_cong [OF w]
        daily_sales_query_cong [OF w] payment_status_distribution_query_cong [OF w])
qed

theorem absent_dates_equal_covering_dates_witness:
  "iso_dates (QString ''2024-01-01'') = Some 19723
   \<and> iso_dates (QString ''2024-02-01'') = Some 19754
   \<and> map (\<lambda>ord. DATE (o_created_at ord)) four_orders = [19737, 19737, 19738, 19738]
   \<and> get_daily_sales iso_dates four_orders
         (JsValue (QString ''2024-01-01'')) (JsValue (QString ''2024-02-01''))
       = Rows [(19737, 120), (19738, 130)]"
proof -
  have a: "iso_dates (QString ''2024-01-01'') = Some 19723"
    and b: "iso_dates (QString ''2024-02-01'') = Some 19754"
    by (simp_all add: iso_dates_def)
  have c: "\<forall>ord \<in> set four_orders.
         19723 \<le> DATE (o_created_at ord) \<and> DATE (o_created_at ord) < 19754"
    by (simp add: four_orders_def stored_order_def DATE_def usecs_per_day_def)
  have d: "daily_sales_query four_orders None None = [(19737, 120), (19738, 130)]"
    by (simp add: daily_sales_query_def where_dates_def four_orders_def stored_order_def
        DATE_def usecs_per_day_def)
  have e: "map (\<lambda>ord. DATE (o_created_at ord)) four_orders = [19737, 19737, 19738, 19738]"
    by (simp add: four_orders_def stored_order_def DATE_def usecs_per_day_def)
  show ?thesis
    using absent_dates_equal_covering_dates [OF a b c] a b e
    by (simp add: d)
qed

section \<open>The customers with the largest pending amounts\<close>

lemma set_top_pending_customers_query:
  "set (top_pending_customers_query os)
     \<subseteq> (\<lambda>k. (fst k, snd k, length (pending_of os k),
                sum_list (map o_total_amount (pending_of os k))))
         ` (\<lambda>ord. (o_customer_name ord, o_customer_phone ord))
         ` {ord \<in> set os. o_payment_status ord = Some ''Pending''}"
proof -
  have "set (take 5 xs) \<subseteq> set xs" for xs :: "(string option \<times> string option \<times> nat \<times> rat) list"
    by (rule set_take_subset)
  then show ?thesis
    unfolding top_pending_customers_query_def Let_def
    by (rule subset_trans) auto
qed

lemma sorted_top_pending_customers_query:
  "sorted_wrt (\<lambda>r r'. total_pending_amount r' \<le> total_pending_amount r)
     (top_pending_customers_query os)"
proof -
  have "sorted_wrt (\<lambda>r r'. - total_pending_amount r \<le> - total_pending_amount r')
          (sort_key (\<lambda>r. - total_pending_amount r) rows)"
    for rows :: "(string option \<times> string option \<times> nat \<times> rat) list"
    using sorted_sort_key [of "\<lambda>r. - total_pending_amount r" rows]
    by (simp add: sorted_map)
  then have "sorted_wrt (\<lambda>r r'. - total_pending_amount r \<le> - total_pending_amount r')
          (take 5 (sort_key (\<lambda>r. - total_pending_amount r) rows))"
    for rows :: "(string option \<times> string option \<times> nat \<times> rat) list"
    by (rule sorted_wrt_take)
  then show ?thesis
    by (simp add: top_pending_customers_query_def Let_def)
qed

text \<open>
  Claim C7: on every state of the table the query gives at most five rows, in the order
  of falling \<^verbatim>\<open>total_pending_amount\<close>; every row stands for a customer with at least
  one pending order, and its count and its amount are those of the orders of that customer
  whose status is \<^verbatim>\<open>Pending\<close>, and of no other order.
\<close>

theorem top_pending_customers:
  "length (top_pending_customers_query os) \<le> 5
   \<and> sorted_wrt (\<lambda>r r'. total_pending_amount r' \<le> total_pending_amount r)
        (top_pending_customers_query os)
   \<and> (\<forall>(cn, cp, c, amount) \<in> set (top_pending_customers_query os).
         0 < c
         \<and> c = length (pending_of os (cn, cp))
         \<and> amount = sum_list (map o_total_amount (pending_of os (cn, cp)))
         \<and> (\<forall>ord \<in> set (pending_of os (cn, cp)).
               ord \<in> set os \<and> o_payment_status ord = Some ''Pending''
               \<and> o_customer_name ord = cn \<and> o_customer_phone ord = cp))"
proof -
  have len: "length (top_pending_customers_query os) \<le> 5"
    by (simp add: top_pending_customers_query_def Let_def)
  have rows: "0 < c \<and> c = length (pending_of os (cn, cp))
         \<and> amount = sum_list (map o_total_amount (pending_of os (cn, cp)))
         \<and> (\<forall>ord \<in> set (pending_of os (cn, cp)).
               ord \<in> set os \<and> o_payment_status ord = Some ''Pending''
               \<and> o_customer_name ord = cn \<and> o_customer_phone ord = cp)"
    if "(cn, cp, c, amount) \<in> set (top_pending_customers_query os)" for cn cp c amount
  proof -
    from that set_top_pending_customers_query [of os]
    obtain ord where ord: "ord \<in> set os" "o_payment_status ord = Some ''Pending''"
      "cn = o_customer_name ord" "cp = o_customer_phone ord"
      and c: "c = length (pending_of os (cn, cp))"
      and a: "amount = sum_list (map o_total_amount (pending_of os (cn, cp)))"
      by auto
    from ord have "ord \<in> set (pending_of os (cn, cp))"
      by (simp add: pending_of_def)
    then have "0 < length (pending_of os (cn, cp))"
      by (metis length_pos_if_in_set)
    moreover have "\<forall>x \<in> set (pending_of os (cn, cp)).
               x \<in> set os \<and> o_payment_status x = Some ''Pending''
               \<and> o_customer_name x = cn \<and> o_customer_phone x = cp"
      by (auto simp: pending_of_def)
    ultimately show ?thesis
      using c a by simp
  qed
  show ?thesis
    using len sorted_top_pending_customers_query [of os] rows by blast
qed

theorem top_pending_customers_witness:
  "(Some ''Asha'', None, 2, 80) \<in> set (top_pending_customers_query four_orders)
   \<and> length (pending_of four_orders (Some ''Asha'', None)) = 2
   \<and> sum_list (map o_total_amount (pending_of four_orders (Some ''Asha'', None))) = 80
   \<and> top_pending_customers_query four_orders
       = [(Some ''Meera'', None, 1, 100), (Some ''Asha'', None, 2, 80)]"
proof -
  have q: "top_pending_customers_query four_orders
       = [(Some ''Meera'', None, 1, 100), (Some ''Asha'', None, 2, 80)]"
    by (simp add: top_pending_customers_query_def pending_of_def four_orders_def
        stored_order_def total_pending_amount_def)
  then have m: "(Some ''Asha'', None, 2, 80) \<in> set (top_pending_customers_query four_orders)"
    by simp
  from top_pending_customers [of four_orders] m
  have "2 = length (pending_of four_orders (Some ''Asha'', None))
      \<and> 80 = sum_list (map o_total_amount (pending_of four_orders (Some ''Asha'', None)))"
    by blast
  with m q show ?thesis
    by simp
qed

section \<open>Only an absent date is no bound\<close>

lemma with_dates_start_rejected:
  "date_in v = None \<Longrightarrow> with_dates date_in (JsValue v) endDate query = Error500"
  by (simp add: with_dates_def parseParam_def)

lemma with_dates_end_rejected:
  "date_in v = None \<Longrightarrow> with_dates date_in startDate (JsValue v) query = Error500"
  by (simp add: with_dates_def parseParam_def split: option.splits)

text \<open>
  Claim C10: \<^verbatim>\<open>parseParam\<close> turns \<^verbatim>\<open>undefined\<close> into \<^verbatim>\<open>null\<close> and gives back
  every other value as it is, the empty string too. So an absent date binds the SQL null,
  which is no bound, while an empty string is bound as it is: with a store that does not
  read the empty string as a date, each of the three handlers answers status 500 when the
  start date or the end date is the empty string.
\<close>

theorem parseParam_only_undefined:
  assumes "date_in (QString '''') = None"
  shows "parseParam JsUndefined = JsNull
       \<and> (\<forall>p. p \<noteq> JsUndefined \<longrightarrow> parseParam p = p)
       \<and> parseParam (JsValue (QString '''')) = JsValue (QString '''')
       \<and> bind_date date_in (parseParam JsUndefined) = Some None
       \<and> bind_date date_in (parseParam (JsValue (QString ''''))) = None
       \<and> get_sales_by_item date_in os ois (JsValue (QString '''')) endDate = Error500
       \<and> get_sales_by_item date_in os ois startDate (JsValue (QString '''')) = Error500
       \<and> get_daily_sales date_in os (JsValue (QString '''')) endDate = Error500
       \<and> get_daily_sales date_in os startDate (JsValue (QString '''')) = Error500
       \<and> get_payment_status_distribution date_in os (JsValue (QString '''')) endDate = Error500
       \<and> get_payment_status_distribution date_in os startDate (JsValue (QString '''')) = Error500"
  using assms
  by (simp add: parseParam_def get_sales_by_item_def get_daily_sales_def
      get_payment_status_distribution_def with_dates_start_rejected with_dates_end_rejected)

theorem parseParam_only_undefined_witness:
  "iso_dates (QString '''') = None
   \<and> get_daily_sales iso_dates four_orders (JsValue (QString '''')) JsUndefined = Error500
   \<and> get_daily_sales iso_dates four_orders (JsValue (QString ''2024-01-15'')) (JsValue (QString ''''))
       = Error500"
proof -
  have a: "iso_dates (QString '''') = None"
    by (simp add: iso_dates_def)
  show ?thesis
    using parseParam_only_undefined
      [where date_in = iso_dates and os = four_orders and ois = "[]" and endDate = JsUndefined
         and startDate = "JsValue (QString ''2024-01-15'')", OF a] a
    by blast
qed

end
